theory Spec2Isabelle
  imports Main "HOL-Library.Word"
begin

unbundle bit_operations_syntax

section \<open>The NVS demonstration program \<open>TI_SimpleLink_nvsInternal.c\<close>\<close>

text \<open>
  The repository is one C file: \<open>mainThread\<close>, which opens a display and the
  internal flash region through the TI drivers, reads four values at fixed offsets,
  prints them, and writes four constants back. The drivers (\<open>Display.h\<close>,
  \<open>NVS.h\<close>) and the board file are not part of the file; every call into them is a
  field of a \<open>platform\<close> record below, so that each statement about \<open>mainThread\<close>
  holds for every behaviour of the drivers.
\<close>

subsection \<open>C types and the file's constants\<close>

type_synonym uint8_t = "8 word"
type_synonym int8_t = "8 word"    \<comment> \<open>read with \<open>sint\<close>\<close>
type_synonym uint16_t = "16 word"
type_synonym int16_t = "16 word"  \<comment> \<open>read with \<open>sint\<close>\<close>
type_synonym c_int = "32 word"    \<comment> \<open>\<open>int\<close> of the Cortex-M3 target, read with \<open>sint\<close>\<close>

text \<open>Line 132: \<open>#define FOOTER\<close>, fifty \<open>=\<close> characters.\<close>

definition FOOTER :: string where
  "FOOTER = ''==================================================''"

text \<open>Line 135: \<open>#define NVS_SOK (0)\<close>.\<close>

definition NVS_SOK :: int where
  "NVS_SOK = 0"

text \<open>Line 141: \<open>static uint8_t buffer[4]\<close>, so \<open>sizeof(buffer)\<close> is 4.\<close>

definition sizeof_buffer :: nat where
  "sizeof_buffer = 4"

text \<open>Lines 147 to 152: the four test values.\<close>

definition variableA :: uint8_t where
  "variableA = 240"

definition variableB :: int8_t where
  "variableB = - 65"

definition variableC :: uint16_t where
  "variableC = 64532"

definition variableD :: int16_t where
  "variableD = - 6453"

text \<open>
  Lines 73 to 75: the region configuration this example is built with (set in the
  board file, documented in the header comment of the source).
\<close>

definition NVS_REGIONS_BASE :: nat where
  "NVS_REGIONS_BASE = 0x2000"

definition SECTORSIZE :: nat where
  "SECTORSIZE = 0x1000"

definition REGIONSIZE :: nat where
  "REGIONSIZE = SECTORSIZE * 24"

subsection \<open>Byte order of the 16-bit values\<close>

text \<open>
  Lines 278 and 293: \<open>buffer[0] = (v & 0x00FF)\<close>. The operand is promoted to
  \<open>int\<close>, masked, and converted to \<open>uint8_t\<close> by the assignment.
\<close>

definition low_byte :: "uint16_t \<Rightarrow> uint8_t" where
  "low_byte v = ucast ((ucast v :: c_int) AND 0x00FF)"

text \<open>
  Lines 279 and 294: \<open>buffer[1] = (v & 0xFF00) >> 8\<close>. The shift is the one of
  \<open>int\<close> (arithmetic on this target; the operand is never negative).
\<close>

definition high_byte :: "uint16_t \<Rightarrow> uint8_t" where
  "high_byte v = ucast (signed_drop_bit 8 ((ucast v :: c_int) AND 0xFF00))"

text \<open>
  Lines 228 and 240: \<open>buffer[0] | (buffer[1] << 8)\<close>, computed in \<open>int\<close> and
  converted to \<open>uint16_t\<close> by the initialisation.
\<close>

definition join_bytes :: "uint8_t \<Rightarrow> uint8_t \<Rightarrow> uint16_t" where
  "join_bytes b0 b1 = ucast ((ucast b0 :: c_int) OR push_bit 8 (ucast b1 :: c_int))"

text \<open>
  Lines 241 and 292: the casts \<open>(int16_t)\<close> and \<open>(uint16_t)\<close> between the signed
  and the unsigned 16-bit type keep the bit pattern; line 216 and 264 do the same at
  8 bits.
\<close>

definition to_int16 :: "uint16_t \<Rightarrow> int16_t" where
  "to_int16 u = ucast u"

definition to_uint16 :: "int16_t \<Rightarrow> uint16_t" where
  "to_uint16 d = ucast d"

definition to_int8 :: "uint8_t \<Rightarrow> int8_t" where
  "to_int8 u = ucast u"

definition to_uint8 :: "int8_t \<Rightarrow> uint8_t" where
  "to_uint8 d = ucast d"

subsection \<open>The drivers as a parameter\<close>

text \<open>
  \<open>NVS_Attrs\<close> of \<open>NVS.h\<close>, with the three fields the program prints
  (lines 193 to 198).
\<close>

record NVS_Attrs =
  regionBase :: nat
  regionSize :: nat
  sectorSize :: nat

text \<open>
  Everything \<open>mainThread\<close> calls or uses that the file does not define. \<open>'w\<close> is
  the state of the world outside the program (the flash, the UART, the drivers' own
  data), \<open>'p\<close> is \<open>NVS_Params\<close>. A handle is a pointer: \<open>None\<close> is
  \<open>NULL\<close>. \<open>Display_open\<close> is the call with \<open>Display_Type_UART\<close> and
  \<open>NULL\<close> of line 168, \<open>NVS_open\<close> the one with \<open>Board_NVSINTERNAL\<close> of
  line 175. \<open>NVS_read\<close> takes the handle, the offset and the size and gives the
  status and the bytes it copied out; \<open>NVS_write\<close> takes the handle, the offset, the
  bytes and the flags. The two flag values are the macros of \<open>NVS.h\<close>.
\<close>

record ('w, 'p) platform =
  Display_init :: "'w \<Rightarrow> 'w"
  NVS_init :: "'w \<Rightarrow> 'w"
  Display_open :: "'w \<Rightarrow> nat option \<times> 'w"
  Display_printf :: "'w \<Rightarrow> nat option \<Rightarrow> string \<Rightarrow> int list \<Rightarrow> 'w"
  NVS_Params_init :: "'w \<Rightarrow> 'p \<times> 'w"
  NVS_open :: "'w \<Rightarrow> 'p \<Rightarrow> nat option \<times> 'w"
  NVS_getAttrs :: "'w \<Rightarrow> nat \<Rightarrow> NVS_Attrs \<times> 'w"
  NVS_read :: "'w \<Rightarrow> nat \<Rightarrow> nat \<Rightarrow> nat \<Rightarrow> (int \<times> uint8_t list) \<times> 'w"
  NVS_write :: "'w \<Rightarrow> nat \<Rightarrow> nat \<Rightarrow> uint8_t list \<Rightarrow> 16 word \<Rightarrow> int \<times> 'w"
  NVS_WRITE_ERASE :: "16 word"
  NVS_WRITE_POST_VERIFY :: "16 word"

subsection \<open>The program's state and the calls it makes\<close>

text \<open>Every call that leaves the program, with the arguments that vary.\<close>

datatype call =
    Call_Display_init
  | Call_NVS_init
  | Call_Display_open
  | Call_Display_printf string "int list"
  | Call_NVS_Params_init
  | Call_NVS_open
  | Call_NVS_getAttrs
  | Call_NVS_read nat nat
  | Call_NVS_write nat "uint8_t list" "16 word"

text \<open>
  The two file-scope variables (lines 141 and 144), the world outside, and the calls
  made so far, oldest first.
\<close>

record 'w mstate =
  world :: 'w
  buffer :: "uint8_t list"
  rwStatus :: int8_t
  calls :: "call list"

text \<open>The state at start-up: statics as the C initialisers leave them, no call made.\<close>

definition initial :: "'w \<Rightarrow> 'w mstate" where
  "initial w = \<lparr>world = w, buffer = replicate sizeof_buffer 0, rwStatus = 0, calls = []\<rparr>"

text \<open>
  A run either returns a value, or is still inside a loop when the fuel (the number of
  loop iterations allowed) is used up; both carry the state reached.
\<close>

datatype ('a, 's) outcome = Done 'a 's | OutOfFuel 's

fun state_of :: "('a, 's) outcome \<Rightarrow> 's" where
  "state_of (Done r s) = s"
| "state_of (OutOfFuel s) = s"

fun returned :: "('a, 's) outcome \<Rightarrow> bool" where
  "returned (Done r s) = True"
| "returned (OutOfFuel s) = False"

definition log_call :: "call \<Rightarrow> 'w mstate \<Rightarrow> 'w mstate" where
  "log_call c s = s\<lparr>calls := calls s @ [c]\<rparr>"

definition call_Display_init :: "('w, 'p) platform \<Rightarrow> 'w mstate \<Rightarrow> 'w mstate" where
  "call_Display_init P s = (log_call Call_Display_init s)\<lparr>world := Display_init P (world s)\<rparr>"

definition call_NVS_init :: "('w, 'p) platform \<Rightarrow> 'w mstate \<Rightarrow> 'w mstate" where
  "call_NVS_init P s = (log_call Call_NVS_init s)\<lparr>world := NVS_init P (world s)\<rparr>"

definition call_Display_open :: "('w, 'p) platform \<Rightarrow> 'w mstate \<Rightarrow> nat option \<times> 'w mstate" where
  "call_Display_open P s =
     (case Display_open P (world s) of
        (h, w) \<Rightarrow> (h, (log_call Call_Display_open s)\<lparr>world := w\<rparr>))"

definition call_Display_printf ::
  "('w, 'p) platform \<Rightarrow> nat option \<Rightarrow> string \<Rightarrow> int list \<Rightarrow> 'w mstate \<Rightarrow> 'w mstate" where
  "call_Display_printf P displayHandle fmt args s =
     (log_call (Call_Display_printf fmt args) s)
       \<lparr>world := Display_printf P (world s) displayHandle fmt args\<rparr>"

definition call_NVS_Params_init :: "('w, 'p) platform \<Rightarrow> 'w mstate \<Rightarrow> 'p \<times> 'w mstate" where
  "call_NVS_Params_init P s =
     (case NVS_Params_init P (world s) of
        (p, w) \<Rightarrow> (p, (log_call Call_NVS_Params_init s)\<lparr>world := w\<rparr>))"

definition call_NVS_open :: "('w, 'p) platform \<Rightarrow> 'p \<Rightarrow> 'w mstate \<Rightarrow> nat option \<times> 'w mstate" where
  "call_NVS_open P nvsParams s =
     (case NVS_open P (world s) nvsParams of
        (h, w) \<Rightarrow> (h, (log_call Call_NVS_open s)\<lparr>world := w\<rparr>))"

definition call_NVS_getAttrs :: "('w, 'p) platform \<Rightarrow> nat \<Rightarrow> 'w mstate \<Rightarrow> NVS_Attrs \<times> 'w mstate" where
  "call_NVS_getAttrs P nvsHandle s =
     (case NVS_getAttrs P (world s) nvsHandle of
        (a, w) \<Rightarrow> (a, (log_call Call_NVS_getAttrs s)\<lparr>world := w\<rparr>))"

text \<open>
  What a read leaves in the caller's buffer: the driver copies at most \<open>size\<close> bytes
  to its start, the other cells keep their value.
\<close>

definition copy_out :: "uint8_t list \<Rightarrow> uint8_t list \<Rightarrow> nat \<Rightarrow> uint8_t list" where
  "copy_out buf bytes n =
     map (\<lambda>i. if i < n \<and> i < length bytes then bytes ! i else buf ! i) [0..<length buf]"

text \<open>\<open>NVS_read(nvsHandle, offset, (void *) buffer, size)\<close>: the status and the new state.\<close>

definition call_NVS_read ::
  "('w, 'p) platform \<Rightarrow> nat \<Rightarrow> nat \<Rightarrow> nat \<Rightarrow> 'w mstate \<Rightarrow> int \<times> 'w mstate" where
  "call_NVS_read P nvsHandle offset n s =
     (case NVS_read P (world s) nvsHandle offset n of
        ((status, bytes), w) \<Rightarrow>
          (status, (log_call (Call_NVS_read offset n) s)
                     \<lparr>world := w, buffer := copy_out (buffer s) bytes n\<rparr>))"

text \<open>\<open>NVS_write(nvsHandle, offset, (void *) buffer, size, flags)\<close>.\<close>

definition call_NVS_write ::
  "('w, 'p) platform \<Rightarrow> nat \<Rightarrow> nat \<Rightarrow> nat \<Rightarrow> 16 word \<Rightarrow> 'w mstate \<Rightarrow> int \<times> 'w mstate" where
  "call_NVS_write P nvsHandle offset n flags s =
     (case NVS_write P (world s) nvsHandle offset (take n (buffer s)) flags of
        (status, w) \<Rightarrow>
          (status, (log_call (Call_NVS_write offset (take n (buffer s)) flags) s)
                     \<lparr>world := w\<rparr>))"

text \<open>
  \<open>rwStatus = ...\<close>: the \<open>int_fast16_t\<close> a driver call returns is stored in an
  \<open>int8_t\<close>, which keeps its low eight bits.
\<close>

definition set_rwStatus :: "int \<times> 'w mstate \<Rightarrow> 'w mstate" where
  "set_rwStatus r = (snd r)\<lparr>rwStatus := word_of_int (fst r)\<rparr>"

text \<open>\<open>rwStatus == NVS_SOK\<close>, compared in \<open>int\<close>.\<close>

definition status_ok :: "'w mstate \<Rightarrow> bool" where
  "status_ok s = (sint (rwStatus s) = NVS_SOK)"

subsection \<open>The eight read and write blocks\<close>

definition nl :: string where
  "nl = [CHR 0x0A]"

text \<open>Lines 200 to 209: read from offset 0x10000 and print the first byte as unsigned.\<close>

definition read_variableA ::
  "('w, 'p) platform \<Rightarrow> nat option \<Rightarrow> nat \<Rightarrow> 'w mstate \<Rightarrow> 'w mstate" where
  "read_variableA P displayHandle nvsHandle s =
     (let s1 = set_rwStatus (call_NVS_read P nvsHandle 0x10000 sizeof_buffer s)
      in if status_ok s1 then
           (let s2 = call_Display_printf P displayHandle
                       (''Reading value from page 0x12000'' @ nl) [] s1;
                variableAtemp = buffer s2 ! 0
            in call_Display_printf P displayHandle (''%u'' @ nl) [uint variableAtemp] s2)
         else call_Display_printf P displayHandle
                (''Cannot read from page 0x12000'' @ nl) [] s1)"

text \<open>Lines 212 to 221: read from offset 0x4000 and print the first byte as signed.\<close>

definition read_variableB ::
  "('w, 'p) platform \<Rightarrow> nat option \<Rightarrow> nat \<Rightarrow> 'w mstate \<Rightarrow> 'w mstate" where
  "read_variableB P displayHandle nvsHandle s =
     (let s1 = set_rwStatus (call_NVS_read P nvsHandle 0x4000 sizeof_buffer s)
      in if status_ok s1 then
           (let s2 = call_Display_printf P displayHandle
                       (''Reading value from page 0x6000'' @ nl) [] s1;
                variableBtemp = to_int8 (buffer s2 ! 0)
            in call_Display_printf P displayHandle (''%d'' @ nl) [sint variableBtemp] s2)
         else call_Display_printf P displayHandle
                (''Cannot read from page 0x6000'' @ nl) [] s1)"

text \<open>Lines 224 to 233: read from offset 0x14000 and print two bytes as unsigned.\<close>

definition read_variableC ::
  "('w, 'p) platform \<Rightarrow> nat option \<Rightarrow> nat \<Rightarrow> 'w mstate \<Rightarrow> 'w mstate" where
  "read_variableC P displayHandle nvsHandle s =
     (let s1 = set_rwStatus (call_NVS_read P nvsHandle 0x14000 sizeof_buffer s)
      in if status_ok s1 then
           (let s2 = call_Display_printf P displayHandle
                       (''Reading value from page 0x16000'' @ nl) [] s1;
                variableCtemp = join_bytes (buffer s2 ! 0) (buffer s2 ! 1)
            in call_Display_printf P displayHandle (''%u'' @ nl) [uint variableCtemp] s2)
         else call_Display_printf P displayHandle
                (''Cannot read from page 0x16000'' @ nl) [] s1)"

text \<open>Lines 236 to 246: read from offset 0x17000 and print two bytes as signed.\<close>

definition read_variableD ::
  "('w, 'p) platform \<Rightarrow> nat option \<Rightarrow> nat \<Rightarrow> 'w mstate \<Rightarrow> 'w mstate" where
  "read_variableD P displayHandle nvsHandle s =
     (let s1 = set_rwStatus (call_NVS_read P nvsHandle 0x17000 sizeof_buffer s)
      in if status_ok s1 then
           (let s2 = call_Display_printf P displayHandle
                       (''Reading value from page 0x19000'' @ nl) [] s1;
                variableDtempU = join_bytes (buffer s2 ! 0) (buffer s2 ! 1);
                variableDtemp = to_int16 variableDtempU
            in call_Display_printf P displayHandle (''%d'' @ nl) [sint variableDtemp] s2)
         else call_Display_printf P displayHandle
                (''Cannot read from page 0x19000'' @ nl) [] s1)"

text \<open>The mode every write of the program passes (lines 255, 269, 283 and 298).\<close>

definition write_flags :: "('w, 'p) platform \<Rightarrow> 16 word" where
  "write_flags P = NVS_WRITE_ERASE P OR NVS_WRITE_POST_VERIFY P"

text \<open>Lines 249 to 261: write \<open>variableA\<close> at offset 0x10000.\<close>

definition write_variableA ::
  "('w, 'p) platform \<Rightarrow> nat option \<Rightarrow> nat \<Rightarrow> 'w mstate \<Rightarrow> 'w mstate" where
  "write_variableA P displayHandle nvsHandle s =
     (let s1 = s\<lparr>buffer := (buffer s)[0 := variableA, 1 := 0xff, 2 := 0xff, 3 := 0xff]\<rparr>;
          s2 = set_rwStatus (call_NVS_write P nvsHandle 0x10000 sizeof_buffer (write_flags P) s1)
      in if status_ok s2 then
           call_Display_printf P displayHandle
             (''Successfully written at page 0x12000'' @ nl) [] s2
         else call_Display_printf P displayHandle
                (''Cannot write at page 0x12000'' @ nl) [] s2)"

text \<open>Lines 263 to 275: write \<open>variableB\<close> at offset 0x4000.\<close>

definition write_variableB ::
  "('w, 'p) platform \<Rightarrow> nat option \<Rightarrow> nat \<Rightarrow> 'w mstate \<Rightarrow> 'w mstate" where
  "write_variableB P displayHandle nvsHandle s =
     (let s1 = s\<lparr>buffer := (buffer s)[0 := to_uint8 variableB, 1 := 0xff, 2 := 0xff, 3 := 0xff]\<rparr>;
          s2 = set_rwStatus (call_NVS_write P nvsHandle 0x4000 sizeof_buffer (write_flags P) s1)
      in if status_ok s2 then
           call_Display_printf P displayHandle
             (''Successfully written at page 0x6000'' @ nl) [] s2
         else call_Display_printf P displayHandle
                (''Cannot write at page 0x6000'' @ nl) [] s2)"

text \<open>Lines 277 to 289: write \<open>variableC\<close>, low byte first, at offset 0x14000.\<close>

definition write_variableC ::
  "('w, 'p) platform \<Rightarrow> nat option \<Rightarrow> nat \<Rightarrow> 'w mstate \<Rightarrow> 'w mstate" where
  "write_variableC P displayHandle nvsHandle s =
     (let s1 = s\<lparr>buffer := (buffer s)[0 := low_byte variableC, 1 := high_byte variableC,
                                       2 := 0xff, 3 := 0xff]\<rparr>;
          s2 = set_rwStatus (call_NVS_write P nvsHandle 0x14000 sizeof_buffer (write_flags P) s1)
      in if status_ok s2 then
           call_Display_printf P displayHandle
             (''Successfully written at page 0x16000'' @ nl) [] s2
         else call_Display_printf P displayHandle
                (''Cannot write at page 0x16000'' @ nl) [] s2)"

text \<open>Lines 291 to 304: write \<open>variableD\<close>, low byte first, at offset 0x17000.\<close>

definition write_variableD ::
  "('w, 'p) platform \<Rightarrow> nat option \<Rightarrow> nat \<Rightarrow> 'w mstate \<Rightarrow> 'w mstate" where
  "write_variableD P displayHandle nvsHandle s =
     (let variableDtemp = to_uint16 variableD;
          s1 = s\<lparr>buffer := (buffer s)[0 := low_byte variableDtemp, 1 := high_byte variableDtemp,
                                       2 := 0xff, 3 := 0xff]\<rparr>;
          s2 = set_rwStatus (call_NVS_write P nvsHandle 0x17000 sizeof_buffer (write_flags P) s1)
      in if status_ok s2 then
           call_Display_printf P displayHandle
             (''Successfully written at page 0x19000'' @ nl) [] s2
         else call_Display_printf P displayHandle
                (''Cannot write at page 0x19000'' @ nl) [] s2)"

subsection \<open>\<open>mainThread\<close>\<close>

text \<open>
  Line 171: \<open>while (1);\<close>. The condition is the constant 1 and the body is the empty
  statement; each iteration uses one unit of fuel.
\<close>

fun while_1 :: "nat \<Rightarrow> 's \<Rightarrow> (unit, 's) outcome" where
  "while_1 0 s = OutOfFuel s"
| "while_1 (Suc fuel) s = (if (1 :: int) \<noteq> 0 then while_1 fuel s else Done () s)"

text \<open>Lines 183 to 198: print an empty line, fetch the region attributes, print them.\<close>

definition show_attrs ::
  "('w, 'p) platform \<Rightarrow> nat option \<Rightarrow> nat \<Rightarrow> 'w mstate \<Rightarrow> NVS_Attrs \<times> 'w mstate" where
  "show_attrs P displayHandle nvsHandle s =
     (let s1 = call_Display_printf P displayHandle nl [] s
      in case call_NVS_getAttrs P nvsHandle s1 of
           (regionAttrs, s2) \<Rightarrow>
             (let s3 = call_Display_printf P displayHandle ''Region Base Address: 0x%x''
                         [int (regionBase regionAttrs)] s2;
                  s4 = call_Display_printf P displayHandle ''Sector Size: 0x%x''
                         [int (sectorSize regionAttrs)] s3;
                  s5 = call_Display_printf P displayHandle (''Region Size: 0x%x'' @ nl)
                         [int (regionSize regionAttrs)] s4
              in (regionAttrs, s5)))"

text \<open>
  Lines 157 to 310. The argument \<open>arg0\<close> is not used. The value returned is always
  \<open>NULL\<close> (\<open>None\<close>), at line 180 when \<open>NVS_open\<close> fails and at line 309.
\<close>

definition mainThread ::
  "nat \<Rightarrow> ('w, 'p) platform \<Rightarrow> 'w mstate \<Rightarrow> (nat option, 'w mstate) outcome" where
  "mainThread fuel P s0 =
     (let s1 = call_Display_init P s0;
          s2 = call_NVS_init P s1
      in case call_Display_open P s2 of
           (displayHandle, s3) \<Rightarrow>
             (case (if displayHandle = None then while_1 fuel s3 else Done () s3) of
                OutOfFuel s \<Rightarrow> OutOfFuel s
              | Done u s4 \<Rightarrow>
                  (case call_NVS_Params_init P s4 of
                     (nvsParams, s5) \<Rightarrow>
                       (case call_NVS_open P nvsParams s5 of
                          (None, s6) \<Rightarrow>
                            Done None
                              (call_Display_printf P displayHandle ''NVS_open() failed.'' [] s6)
                        | (Some nvsHandle, s6) \<Rightarrow>
                            (case show_attrs P displayHandle nvsHandle s6 of
                               (regionAttrs, s7) \<Rightarrow>
                                 (let s8 = read_variableA P displayHandle nvsHandle s7;
                                      s9 = read_variableB P displayHandle nvsHandle s8;
                                      s10 = read_variableC P displayHandle nvsHandle s9;
                                      s11 = read_variableD P displayHandle nvsHandle s10;
                                      s12 = write_variableA P displayHandle nvsHandle s11;
                                      s13 = write_variableB P displayHandle nvsHandle s12;
                                      s14 = write_variableC P displayHandle nvsHandle s13;
                                      s15 = write_variableD P displayHandle nvsHandle s14;
                                      s16 = call_Display_printf P displayHandle
                                              ''Reset the device.'' [] s15;
                                      s17 = call_Display_printf P displayHandle FOOTER [] s16
                                  in Done None s17))))))"

subsection \<open>Reading the list of calls\<close>

text \<open>The calls into the NVS driver that act on a region: open, attributes, read, write.\<close>

fun is_nvs_operation :: "call \<Rightarrow> bool" where
  "is_nvs_operation Call_NVS_open = True"
| "is_nvs_operation Call_NVS_getAttrs = True"
| "is_nvs_operation (Call_NVS_read offset n) = True"
| "is_nvs_operation (Call_NVS_write offset bytes flags) = True"
| "is_nvs_operation c = False"

text \<open>The span \<open>(offset, size)\<close> of a read, of a write, and the mode of a write.\<close>

fun read_span :: "call \<Rightarrow> (nat \<times> nat) option" where
  "read_span (Call_NVS_read offset n) = Some (offset, n)"
| "read_span c = None"

fun write_span :: "call \<Rightarrow> (nat \<times> nat) option" where
  "write_span (Call_NVS_write offset bytes flags) = Some (offset, length bytes)"
| "write_span c = None"

fun write_mode :: "call \<Rightarrow> 16 word option" where
  "write_mode (Call_NVS_write offset bytes flags) = Some flags"
| "write_mode c = None"

definition reads_of :: "call list \<Rightarrow> (nat \<times> nat) list" where
  "reads_of cs = List.map_filter read_span cs"

definition writes_of :: "call list \<Rightarrow> (nat \<times> nat) list" where
  "writes_of cs = List.map_filter write_span cs"

definition modes_of :: "call list \<Rightarrow> 16 word list" where
  "modes_of cs = List.map_filter write_mode cs"

text \<open>
  A span \<open>(offset, size)\<close> starts on a sector boundary, stays inside one sector and
  inside the region of the configuration of lines 73 to 75.
\<close>

definition span_in_one_sector :: "nat \<times> nat \<Rightarrow> bool" where
  "span_in_one_sector sp =
     (fst sp mod SECTORSIZE = 0 \<and>
      fst sp div SECTORSIZE = (fst sp + snd sp - 1) div SECTORSIZE \<and>
      fst sp + snd sp \<le> REGIONSIZE)"

subsection \<open>A board to run the program on\<close>

text \<open>
  A board for concrete runs: the display opens or not, the region opens or not, the
  flash is blank (every byte reads \<open>0xFF\<close>) and every read and write reports
  success. The region is the one of lines 73 to 75; the flag values are arbitrary
  distinct bits.
\<close>

definition blank_board :: "bool \<Rightarrow> bool \<Rightarrow> (unit, unit) platform" where
  "blank_board display_ok nvs_ok =
     \<lparr>Display_init = (\<lambda>w. w),
      NVS_init = (\<lambda>w. w),
      Display_open = (\<lambda>w. (if display_ok then Some 1 else None, w)),
      Display_printf = (\<lambda>w h fmt args. w),
      NVS_Params_init = (\<lambda>w. ((), w)),
      NVS_open = (\<lambda>w p. (if nvs_ok then Some 2 else None, w)),
      NVS_getAttrs = (\<lambda>w h.
        (\<lparr>regionBase = NVS_REGIONS_BASE, regionSize = REGIONSIZE, sectorSize = SECTORSIZE\<rparr>, w)),
      NVS_read = (\<lambda>w h offset n. ((0, replicate n 0xFF), w)),
      NVS_write = (\<lambda>w h offset bytes flags. (0, w)),
      NVS_WRITE_ERASE = 1,
      NVS_WRITE_POST_VERIFY = 4\<rparr>"

section \<open>Properties\<close>

subsection \<open>Bytes of a 16-bit value\<close>

lemma mask_255: "(255 :: c_int) = mask 8"
  by (simp add: mask_eq_exp_minus_1)

lemma mask_65280: "(65280 :: c_int) = push_bit 8 (mask 8)"
  by (simp add: mask_eq_exp_minus_1 push_bit_eq_mult)

lemma low_byte_eq: "low_byte v = ucast v"
  unfolding low_byte_def mask_255
  by (rule bit_word_eqI) (auto simp add: bit_simps)

lemma high_byte_eq: "high_byte v = ucast (drop_bit 8 v)"
  unfolding high_byte_def mask_65280
  by (rule bit_word_eqI) (auto simp add: bit_simps)

lemma join_bytes_eq: "join_bytes b0 b1 = ucast b0 OR push_bit 8 (ucast b1)"
  unfolding join_bytes_def
  by (rule bit_word_eqI) (auto simp add: bit_simps)

lemma join_low_high: "join_bytes (low_byte v) (high_byte v) = v"
  unfolding join_bytes_eq low_byte_eq high_byte_eq
  by (rule bit_word_eqI) (auto simp add: bit_simps)

lemma low_byte_unat: "unat (low_byte v) = unat v mod 256"
  by (simp add: low_byte_eq unsigned_ucast_eq take_bit_eq_mod)

lemma high_byte_unat: "unat (high_byte v) = unat v div 256"
proof -
  have "unat v < 2 ^ 16"
    using unsigned_less [of v, where ?'a = nat] by simp
  then have "unat v div 256 < 256"
    by simp
  then show ?thesis
    by (simp add: high_byte_eq unsigned_ucast_eq unsigned_drop_bit_eq take_bit_eq_mod
        drop_bit_eq_div unat_div)
qed

lemma bytes_of_variableC: "low_byte variableC = 0x14" "high_byte variableC = 0xFC"
  by (simp_all add: low_byte_eq high_byte_eq variableC_def drop_bit_eq_div)

lemma bytes_of_variableD:
  "low_byte (to_uint16 variableD) = 0xCB" "high_byte (to_uint16 variableD) = 0xE6"
  by (simp_all add: low_byte_eq high_byte_eq variableD_def to_uint16_def drop_bit_eq_div)

text \<open>
  Claim C4. A 16-bit value is stored low byte first: \<open>buffer[0]\<close> gets the value
  modulo 256 and \<open>buffer[1]\<close> the value divided by 256. Joining the two bytes as the
  read blocks do gives the value back, for every 16-bit value; a signed value that goes
  through the cast to \<open>uint16_t\<close>, the two bytes and the cast back to \<open>int16_t\<close>
  comes back unchanged; for \<open>variableC\<close> the decoded value is 64532 and for
  \<open>variableD\<close> it is -6453.
\<close>

theorem little_endian_roundtrip:
  "join_bytes (low_byte v) (high_byte v) = v \<and>
   unat (low_byte v) = unat v mod 256 \<and>
   unat (high_byte v) = unat v div 256 \<and>
   to_int16 (join_bytes (low_byte (to_uint16 d)) (high_byte (to_uint16 d))) = d \<and>
   unat (join_bytes (low_byte variableC) (high_byte variableC)) = 64532 \<and>
   sint (to_int16 (join_bytes (low_byte (to_uint16 variableD))
                              (high_byte (to_uint16 variableD)))) = - 6453"
  by (simp add: join_low_high low_byte_unat high_byte_unat to_int16_def to_uint16_def
      variableC_def variableD_def)

theorem little_endian_roundtrip_witness:
  "join_bytes (low_byte 0xABCD) (high_byte 0xABCD) = 0xABCD \<and>
   low_byte 0xABCD = 0xCD \<and> high_byte 0xABCD = 0xAB \<and>
   sint (to_int16 (join_bytes (low_byte (to_uint16 (- 2))) (high_byte (to_uint16 (- 2))))) = - 2"
  using little_endian_roundtrip [of "0xABCD" "- 2"]
  by (simp add: low_byte_eq high_byte_eq drop_bit_eq_div)

subsection \<open>What each call adds to the list of calls\<close>

lemma calls_log_call: "calls (log_call c s) = calls s @ [c]"
  by (simp add: log_call_def)

lemma buffer_log_call: "buffer (log_call c s) = buffer s"
  by (simp add: log_call_def)

lemma calls_Display_init: "calls (call_Display_init P s) = calls s @ [Call_Display_init]"
  by (simp add: call_Display_init_def calls_log_call)

lemma buffer_Display_init: "buffer (call_Display_init P s) = buffer s"
  by (simp add: call_Display_init_def buffer_log_call)

lemma world_Display_init: "world (call_Display_init P s) = Display_init P (world s)"
  by (simp add: call_Display_init_def)

lemma calls_NVS_init: "calls (call_NVS_init P s) = calls s @ [Call_NVS_init]"
  by (simp add: call_NVS_init_def calls_log_call)

lemma buffer_NVS_init: "buffer (call_NVS_init P s) = buffer s"
  by (simp add: call_NVS_init_def buffer_log_call)

lemma world_NVS_init: "world (call_NVS_init P s) = NVS_init P (world s)"
  by (simp add: call_NVS_init_def)

lemma Display_open_result:
  "call_Display_open P s = (h, s') \<Longrightarrow>
     h = fst (Display_open P (world s)) \<and> calls s' = calls s @ [Call_Display_open] \<and>
     buffer s' = buffer s"
  by (auto simp add: call_Display_open_def calls_log_call buffer_log_call split: prod.splits)

lemma calls_printf:
  "calls (call_Display_printf P d fmt args s) = calls s @ [Call_Display_printf fmt args]"
  by (simp add: call_Display_printf_def calls_log_call)

lemma buffer_printf: "buffer (call_Display_printf P d fmt args s) = buffer s"
  by (simp add: call_Display_printf_def buffer_log_call)

lemma Params_init_result:
  "call_NVS_Params_init P s = (p, s') \<Longrightarrow>
     calls s' = calls s @ [Call_NVS_Params_init] \<and> buffer s' = buffer s"
  by (auto simp add: call_NVS_Params_init_def calls_log_call buffer_log_call split: prod.splits)

lemma NVS_open_result:
  "call_NVS_open P p s = (h, s') \<Longrightarrow>
     calls s' = calls s @ [Call_NVS_open] \<and> buffer s' = buffer s"
  by (auto simp add: call_NVS_open_def calls_log_call buffer_log_call split: prod.splits)

lemma getAttrs_result:
  "call_NVS_getAttrs P h s = (a, s') \<Longrightarrow>
     calls s' = calls s @ [Call_NVS_getAttrs] \<and> buffer s' = buffer s"
  by (auto simp add: call_NVS_getAttrs_def calls_log_call buffer_log_call split: prod.splits)

lemma calls_read:
  "calls (set_rwStatus (call_NVS_read P h offset n s)) = calls s @ [Call_NVS_read offset n]"
  by (simp add: set_rwStatus_def call_NVS_read_def calls_log_call split: prod.splits)

lemma length_buffer_read:
  "length (buffer (set_rwStatus (call_NVS_read P h offset n s))) = length (buffer s)"
  by (simp add: set_rwStatus_def call_NVS_read_def copy_out_def split: prod.splits)

lemma calls_write:
  "calls (set_rwStatus (call_NVS_write P h offset n flags s)) =
     calls s @ [Call_NVS_write offset (take n (buffer s)) flags]"
  by (simp add: set_rwStatus_def call_NVS_write_def calls_log_call split: prod.splits)

lemma buffer_write:
  "buffer (set_rwStatus (call_NVS_write P h offset n flags s)) = buffer s"
  by (simp add: set_rwStatus_def call_NVS_write_def buffer_log_call split: prod.splits)

subsection \<open>The read and write blocks\<close>

lemma four_updates:
  "length xs = 4 \<Longrightarrow> xs[0 := a, Suc 0 := b, 2 := c, 3 := d] = [a, b, c, d]"
  by (cases xs; cases "tl xs"; cases "tl (tl xs)"; cases "tl (tl (tl xs))") auto

lemmas block_calls = calls_printf buffer_printf calls_read length_buffer_read
  calls_write buffer_write

lemma read_variableA_calls:
  "filter is_nvs_operation (calls (read_variableA P d h s)) =
     filter is_nvs_operation (calls s) @ [Call_NVS_read 0x10000 4]"
  by (simp add: read_variableA_def Let_def block_calls sizeof_buffer_def)

lemma read_variableA_buffer: "length (buffer (read_variableA P d h s)) = length (buffer s)"
  by (simp add: read_variableA_def Let_def block_calls)

lemma write_variableA_calls:
  "length (buffer s) = 4 \<Longrightarrow>
   filter is_nvs_operation (calls (write_variableA P d h s)) =
     filter is_nvs_operation (calls s) @
       [Call_NVS_write 0x10000 [240, 0xff, 0xff, 0xff] (write_flags P)]"
  by (simp add: write_variableA_def Let_def block_calls sizeof_buffer_def four_updates
      variableA_def)

lemma write_variableA_buffer: "length (buffer (write_variableA P d h s)) = length (buffer s)"
  by (simp add: write_variableA_def Let_def block_calls)


lemma read_variableB_calls:
  "filter is_nvs_operation (calls (read_variableB P d h s)) =
     filter is_nvs_operation (calls s) @ [Call_NVS_read 0x4000 4]"
  by (simp add: read_variableB_def Let_def block_calls sizeof_buffer_def)

lemma read_variableB_buffer: "length (buffer (read_variableB P d h s)) = length (buffer s)"
  by (simp add: read_variableB_def Let_def block_calls)

lemma read_variableC_calls:
  "filter is_nvs_operation (calls (read_variableC P d h s)) =
     filter is_nvs_operation (calls s) @ [Call_NVS_read 0x14000 4]"
  by (simp add: read_variableC_def Let_def block_calls sizeof_buffer_def)

lemma read_variableC_buffer: "length (buffer (read_variableC P d h s)) = length (buffer s)"
  by (simp add: read_variableC_def Let_def block_calls)

lemma read_variableD_calls:
  "filter is_nvs_operation (calls (read_variableD P d h s)) =
     filter is_nvs_operation (calls s) @ [Call_NVS_read 0x17000 4]"
  by (simp add: read_variableD_def Let_def block_calls sizeof_buffer_def)

lemma read_variableD_buffer: "length (buffer (read_variableD P d h s)) = length (buffer s)"
  by (simp add: read_variableD_def Let_def block_calls)

lemma write_variableB_calls:
  "length (buffer s) = 4 \<Longrightarrow>
   filter is_nvs_operation (calls (write_variableB P d h s)) =
     filter is_nvs_operation (calls s) @
       [Call_NVS_write 0x4000 [191, 0xff, 0xff, 0xff] (write_flags P)]"
  by (simp add: write_variableB_def Let_def block_calls sizeof_buffer_def four_updates
      variableB_def to_uint8_def)

lemma write_variableB_buffer: "length (buffer (write_variableB P d h s)) = length (buffer s)"
  by (simp add: write_variableB_def Let_def block_calls)

lemma write_variableC_calls:
  "length (buffer s) = 4 \<Longrightarrow>
   filter is_nvs_operation (calls (write_variableC P d h s)) =
     filter is_nvs_operation (calls s) @
       [Call_NVS_write 0x14000 [0x14, 0xFC, 0xff, 0xff] (write_flags P)]"
  by (simp add: write_variableC_def Let_def block_calls sizeof_buffer_def four_updates
      bytes_of_variableC)

lemma write_variableC_buffer: "length (buffer (write_variableC P d h s)) = length (buffer s)"
  by (simp add: write_variableC_def Let_def block_calls)

lemma write_variableD_calls:
  "length (buffer s) = 4 \<Longrightarrow>
   filter is_nvs_operation (calls (write_variableD P d h s)) =
     filter is_nvs_operation (calls s) @
       [Call_NVS_write 0x17000 [0xCB, 0xE6, 0xff, 0xff] (write_flags P)]"
  by (simp add: write_variableD_def Let_def block_calls sizeof_buffer_def four_updates
      bytes_of_variableD)

lemma write_variableD_buffer: "length (buffer (write_variableD P d h s)) = length (buffer s)"
  by (simp add: write_variableD_def Let_def block_calls)

lemma show_attrs_result:
  "show_attrs P d h s = (a, s') \<Longrightarrow>
     filter is_nvs_operation (calls s') = filter is_nvs_operation (calls s) @ [Call_NVS_getAttrs] \<and>
     buffer s' = buffer s"
  by (auto simp add: show_attrs_def Let_def block_calls dest!: getAttrs_result
      split: prod.splits)

lemmas blocks_calls = read_variableA_calls read_variableB_calls read_variableC_calls
  read_variableD_calls write_variableA_calls write_variableB_calls write_variableC_calls
  write_variableD_calls

lemmas blocks_buffer = read_variableA_buffer read_variableB_buffer read_variableC_buffer
  read_variableD_buffer write_variableA_buffer write_variableB_buffer write_variableC_buffer
  write_variableD_buffer

subsection \<open>The calls of a run\<close>

text \<open>The loop of line 171 never ends: any fuel runs out inside it.\<close>

lemma while_1_spins: "while_1 fuel s = OutOfFuel s"
  by (induction fuel) simp_all

text \<open>
  When the display does not open, the run stays in the loop after the first three calls,
  whatever the platform does.
\<close>

lemma mainThread_no_display:
  assumes "fst (Display_open P (NVS_init P (Display_init P (world s0)))) = None"
  shows "\<exists>s. mainThread fuel P s0 = OutOfFuel s \<and>
           calls s = calls s0 @ [Call_Display_init, Call_NVS_init, Call_Display_open] \<and>
           world s = snd (Display_open P (NVS_init P (Display_init P (world s0))))"
proof -
  obtain h s3 where o: "call_Display_open P (call_NVS_init P (call_Display_init P s0)) = (h, s3)"
    by (cases "call_Display_open P (call_NVS_init P (call_Display_init P s0))")
  from Display_open_result [OF o] assms have "h = None"
    and "calls s3 = calls s0 @ [Call_Display_init, Call_NVS_init, Call_Display_open]"
    by (simp_all add: world_NVS_init world_Display_init calls_NVS_init calls_Display_init)
  moreover from o have "world s3 = snd (Display_open P (NVS_init P (Display_init P (world s0))))"
    by (auto simp add: call_Display_open_def world_NVS_init world_Display_init
        split: prod.splits)
  ultimately show ?thesis
    by (simp add: mainThread_def Let_def o while_1_spins)
qed

lemma mainThread_nvs_calls:
  assumes len: "length (buffer s0) = 4"
  shows "filter is_nvs_operation (calls (state_of (mainThread fuel P s0))) \<in>
     {filter is_nvs_operation (calls s0),
      filter is_nvs_operation (calls s0) @ [Call_NVS_open],
      filter is_nvs_operation (calls s0) @
       [Call_NVS_open, Call_NVS_getAttrs,
        Call_NVS_read 0x10000 4, Call_NVS_read 0x4000 4,
        Call_NVS_read 0x14000 4, Call_NVS_read 0x17000 4,
        Call_NVS_write 0x10000 [240, 0xff, 0xff, 0xff] (write_flags P),
        Call_NVS_write 0x4000 [191, 0xff, 0xff, 0xff] (write_flags P),
        Call_NVS_write 0x14000 [0x14, 0xFC, 0xff, 0xff] (write_flags P),
        Call_NVS_write 0x17000 [0xCB, 0xE6, 0xff, 0xff] (write_flags P)]}"
proof -
  obtain dh s3 where o: "call_Display_open P (call_NVS_init P (call_Display_init P s0)) = (dh, s3)"
    by (cases "call_Display_open P (call_NVS_init P (call_Display_init P s0))")
  from Display_open_result [OF o]
  have s3: "filter is_nvs_operation (calls s3) = filter is_nvs_operation (calls s0)"
    "length (buffer s3) = 4"
    by (simp_all add: calls_NVS_init calls_Display_init buffer_NVS_init buffer_Display_init len)
  show ?thesis
  proof (cases dh)
    case None
    then show ?thesis
      by (simp add: mainThread_def Let_def o while_1_spins s3)
  next
    case dh: (Some d)
    obtain p s5 where pi: "call_NVS_Params_init P s3 = (p, s5)"
      by (cases "call_NVS_Params_init P s3")
    obtain nh s6 where no: "call_NVS_open P p s5 = (nh, s6)"
      by (cases "call_NVS_open P p s5")
    from Params_init_result [OF pi] NVS_open_result [OF no] s3
    have s6: "filter is_nvs_operation (calls s6) =
        filter is_nvs_operation (calls s0) @ [Call_NVS_open]" "length (buffer s6) = 4"
      by simp_all
    show ?thesis
    proof (cases nh)
      case None
      then show ?thesis
        by (simp add: mainThread_def Let_def o dh pi no calls_printf s6)
    next
      case (Some h)
      obtain a s7 where sa: "show_attrs P (Some d) h s6 = (a, s7)"
        by (cases "show_attrs P (Some d) h s6")
      from show_attrs_result [OF sa] s6
      have s7: "filter is_nvs_operation (calls s7) =
          filter is_nvs_operation (calls s0) @ [Call_NVS_open, Call_NVS_getAttrs]"
          "length (buffer s7) = 4"
        by simp_all
      show ?thesis
        by (simp add: mainThread_def Let_def o dh pi no Some sa calls_printf blocks_calls
            blocks_buffer s7)
    qed
  qed
qed

text \<open>When the display opens, the run returns, with any fuel.\<close>

lemma mainThread_returns:
  assumes "fst (Display_open P (NVS_init P (Display_init P (world s0)))) \<noteq> None"
  shows "returned (mainThread fuel P s0)"
proof -
  obtain dh s3 where o: "call_Display_open P (call_NVS_init P (call_Display_init P s0)) = (dh, s3)"
    by (cases "call_Display_open P (call_NVS_init P (call_Display_init P s0))")
  from Display_open_result [OF o] assms obtain d where dh: "dh = Some d"
    by (auto simp add: world_NVS_init world_Display_init)
  obtain p s5 where pi: "call_NVS_Params_init P s3 = (p, s5)"
    by (cases "call_NVS_Params_init P s3")
  obtain nh s6 where no: "call_NVS_open P p s5 = (nh, s6)"
    by (cases "call_NVS_open P p s5")
  show ?thesis
    by (cases nh) (simp_all add: mainThread_def Let_def o dh pi no split: prod.splits)
qed

text \<open>When the display and the region open, the run returns after these NVS calls.\<close>

lemma Display_open_eq:
  "Display_open P (world s) = (h, w) \<Longrightarrow>
     call_Display_open P s = (h, (log_call Call_Display_open s)\<lparr>world := w\<rparr>)"
  by (simp add: call_Display_open_def)

lemma Params_init_eq:
  "NVS_Params_init P (world s) = (p, w) \<Longrightarrow>
     call_NVS_Params_init P s = (p, (log_call Call_NVS_Params_init s)\<lparr>world := w\<rparr>)"
  by (simp add: call_NVS_Params_init_def)

lemma NVS_open_eq:
  "NVS_open P (world s) p = (h, w) \<Longrightarrow>
     call_NVS_open P p s = (h, (log_call Call_NVS_open s)\<lparr>world := w\<rparr>)"
  by (simp add: call_NVS_open_def)

lemma mainThread_full_run:
  assumes len: "length (buffer s0) = 4"
    and d: "Display_open P (NVS_init P (Display_init P (world s0))) = (Some d, w3)"
    and p: "NVS_Params_init P w3 = (p, w5)"
    and h: "NVS_open P w5 p = (Some h, w6)"
  shows "returned (mainThread fuel P s0) \<and>
     filter is_nvs_operation (calls (state_of (mainThread fuel P s0))) =
      filter is_nvs_operation (calls s0) @
       [Call_NVS_open, Call_NVS_getAttrs,
        Call_NVS_read 0x10000 4, Call_NVS_read 0x4000 4,
        Call_NVS_read 0x14000 4, Call_NVS_read 0x17000 4,
        Call_NVS_write 0x10000 [240, 0xff, 0xff, 0xff] (write_flags P),
        Call_NVS_write 0x4000 [191, 0xff, 0xff, 0xff] (write_flags P),
        Call_NVS_write 0x14000 [0x14, 0xFC, 0xff, 0xff] (write_flags P),
        Call_NVS_write 0x17000 [0xCB, 0xE6, 0xff, 0xff] (write_flags P)]"
proof -
  define s2 where "s2 = call_NVS_init P (call_Display_init P s0)"
  define s3 where "s3 = (log_call Call_Display_open s2)\<lparr>world := w3\<rparr>"
  define s5 where "s5 = (log_call Call_NVS_Params_init s3)\<lparr>world := w5\<rparr>"
  define s6 where "s6 = (log_call Call_NVS_open s5)\<lparr>world := w6\<rparr>"
  have o: "call_Display_open P s2 = (Some d, s3)"
    unfolding s3_def
    by (rule Display_open_eq) (simp add: s2_def world_NVS_init world_Display_init d)
  have pi: "call_NVS_Params_init P s3 = (p, s5)"
    unfolding s5_def by (rule Params_init_eq) (simp add: s3_def p)
  have no: "call_NVS_open P p s5 = (Some h, s6)"
    unfolding s6_def by (rule NVS_open_eq) (simp add: s5_def h)
  have s6: "filter is_nvs_operation (calls s6) =
        filter is_nvs_operation (calls s0) @ [Call_NVS_open]" "length (buffer s6) = 4"
    by (simp_all add: s6_def s5_def s3_def s2_def calls_log_call buffer_log_call
        calls_NVS_init calls_Display_init buffer_NVS_init buffer_Display_init len)
  obtain a s7 where sa: "show_attrs P (Some d) h s6 = (a, s7)"
    by (cases "show_attrs P (Some d) h s6")
  from show_attrs_result [OF sa] s6
  have s7: "filter is_nvs_operation (calls s7) =
      filter is_nvs_operation (calls s0) @ [Call_NVS_open, Call_NVS_getAttrs]"
      "length (buffer s7) = 4"
    by simp_all
  show ?thesis
    by (simp add: mainThread_def Let_def o [unfolded s2_def] pi no sa calls_printf
        blocks_calls blocks_buffer s7)
qed

text \<open>Reads, writes and modes depend on the NVS calls only.\<close>

lemma map_filter_nvs:
  assumes "\<And>c. \<not> is_nvs_operation c \<Longrightarrow> f c = None"
  shows "List.map_filter f (filter is_nvs_operation cs) = List.map_filter f cs"
  using assms by (induction cs) (auto simp add: List.map_filter_simps split: option.splits)

lemma read_span_nvs: "\<not> is_nvs_operation c \<Longrightarrow> read_span c = None"
  by (cases c) simp_all

lemma write_span_nvs: "\<not> is_nvs_operation c \<Longrightarrow> write_span c = None"
  by (cases c) simp_all

lemma write_mode_nvs: "\<not> is_nvs_operation c \<Longrightarrow> write_mode c = None"
  by (cases c) simp_all

lemma reads_of_nvs: "reads_of cs = reads_of (filter is_nvs_operation cs)"
  by (simp add: reads_of_def map_filter_nvs read_span_nvs)

lemma writes_of_nvs: "writes_of cs = writes_of (filter is_nvs_operation cs)"
  by (simp add: writes_of_def map_filter_nvs write_span_nvs)

lemma modes_of_nvs: "modes_of cs = modes_of (filter is_nvs_operation cs)"
  by (simp add: modes_of_def map_filter_nvs write_mode_nvs)

lemma length_buffer_initial: "length (buffer (initial w)) = 4"
  by (simp add: initial_def sizeof_buffer_def)

lemma calls_initial: "calls (initial w) = []"
  by (simp add: initial_def)

lemma mainThread_reads:
  "reads_of (calls (state_of (mainThread fuel P (initial w)))) \<in>
     {[], [(0x10000, 4), (0x4000, 4), (0x14000, 4), (0x17000, 4)]}"
  using mainThread_nvs_calls [OF length_buffer_initial, of fuel P w]
  by (subst reads_of_nvs)
    (auto simp add: calls_initial reads_of_def List.map_filter_simps)

lemma mainThread_writes:
  "writes_of (calls (state_of (mainThread fuel P (initial w)))) \<in>
     {[], [(0x10000, 4), (0x4000, 4), (0x14000, 4), (0x17000, 4)]}"
  using mainThread_nvs_calls [OF length_buffer_initial, of fuel P w]
  by (subst writes_of_nvs)
    (auto simp add: calls_initial writes_of_def List.map_filter_simps)

lemma mainThread_modes:
  "modes_of (calls (state_of (mainThread fuel P (initial w)))) \<in>
     {[], [write_flags P, write_flags P, write_flags P, write_flags P]}"
  using mainThread_nvs_calls [OF length_buffer_initial, of fuel P w]
  by (subst modes_of_nvs)
    (auto simp add: calls_initial modes_of_def List.map_filter_simps)

lemma mainThread_reads_writes:
  "reads_of (calls (state_of (mainThread fuel P (initial w)))) =
   writes_of (calls (state_of (mainThread fuel P (initial w))))"
  using mainThread_nvs_calls [OF length_buffer_initial, of fuel P w]
  by (subst reads_of_nvs, subst writes_of_nvs)
    (auto simp add: calls_initial writes_of_def reads_of_def List.map_filter_simps)

lemma or_and_left: "((e :: 16 word) OR v) AND e = e"
  by (rule bit_word_eqI) (auto simp add: bit_simps)

lemma or_and_right: "((e :: 16 word) OR v) AND v = v"
  by (rule bit_word_eqI) (auto simp add: bit_simps)

lemma length_modes_writes: "length (modes_of cs) = length (writes_of cs)"
proof (induction cs)
  case Nil
  show ?case
    by (simp add: modes_of_def writes_of_def List.map_filter_simps)
next
  case (Cons c cs)
  then show ?case
    by (cases c) (simp_all add: modes_of_def writes_of_def List.map_filter_simps)
qed

subsection \<open>A failed \<open>Display_open\<close>\<close>

text \<open>
  Claim C8. If \<open>Display_open\<close> returns \<open>NULL\<close>, \<open>mainThread\<close> stays in
  the loop of line 171 for ever: whatever the fuel, the run has not returned, the calls
  it has made are \<open>Display_init\<close>, \<open>NVS_init\<close> and \<open>Display_open\<close> and nothing
  else, so none of \<open>NVS_open\<close>, \<open>NVS_getAttrs\<close>, \<open>NVS_read\<close> and
  \<open>NVS_write\<close> is ever called, and the world outside is as \<open>Display_open\<close>
  left it.
\<close>

theorem display_failure_halts:
  assumes "fst (Display_open P (NVS_init P (Display_init P (world s0)))) = None"
  shows "\<not> returned (mainThread fuel P s0) \<and>
         calls (state_of (mainThread fuel P s0)) =
           calls s0 @ [Call_Display_init, Call_NVS_init, Call_Display_open] \<and>
         filter is_nvs_operation
           (drop (length (calls s0)) (calls (state_of (mainThread fuel P s0)))) = [] \<and>
         world (state_of (mainThread fuel P s0)) =
           snd (Display_open P (NVS_init P (Display_init P (world s0))))"
proof -
  from mainThread_no_display [OF assms, of fuel]
  obtain s where "mainThread fuel P s0 = OutOfFuel s"
    and "calls s = calls s0 @ [Call_Display_init, Call_NVS_init, Call_Display_open]"
    and "world s = snd (Display_open P (NVS_init P (Display_init P (world s0))))"
    by blast
  then show ?thesis
    by simp
qed

theorem display_failure_halts_witness:
  "\<not> returned (mainThread 1000 (blank_board False True) (initial ())) \<and>
   calls (state_of (mainThread 1000 (blank_board False True) (initial ()))) =
     [Call_Display_init, Call_NVS_init, Call_Display_open]"
  using display_failure_halts [of "blank_board False True" "initial ()" 1000]
  by (simp add: blank_board_def initial_def)

subsection \<open>Offsets and sizes of the accesses\<close>

text \<open>
  Claim C9. Every \<open>NVS_read\<close> and every \<open>NVS_write\<close> that \<open>mainThread\<close>
  issues has one of the offsets 0x4000, 0x10000, 0x14000 and 0x17000 and the size 4,
  which is \<open>sizeof(buffer)\<close>; a run that reads at all reads at exactly these four
  offsets, and likewise for writes. Each offset is a multiple of the sector size
  0x1000, each span lies in one sector and inside the region of 0x18000 bytes.
\<close>

theorem demo_accesses:
  "(\<forall>sp \<in> set (reads_of (calls (state_of (mainThread fuel P (initial w)))) @
                 writes_of (calls (state_of (mainThread fuel P (initial w))))).
      fst sp \<in> {0x4000, 0x10000, 0x14000, 0x17000} \<and> snd sp = 4 \<and> snd sp = sizeof_buffer \<and>
      span_in_one_sector sp) \<and>
   (reads_of (calls (state_of (mainThread fuel P (initial w)))) = [] \<or>
    fst ` set (reads_of (calls (state_of (mainThread fuel P (initial w))))) =
      {0x4000, 0x10000, 0x14000, 0x17000}) \<and>
   (writes_of (calls (state_of (mainThread fuel P (initial w)))) = [] \<or>
    fst ` set (writes_of (calls (state_of (mainThread fuel P (initial w))))) =
      {0x4000, 0x10000, 0x14000, 0x17000}) \<and>
   SECTORSIZE = 0x1000 \<and> REGIONSIZE = 0x18000"
  using mainThread_reads [of fuel P w] mainThread_writes [of fuel P w]
  by (auto simp add: span_in_one_sector_def SECTORSIZE_def REGIONSIZE_def sizeof_buffer_def)

theorem demo_accesses_witness:
  "(0x10000, 4) \<in> set (reads_of (calls (state_of (mainThread 0 (blank_board True True) (initial ())))))
   \<and> span_in_one_sector (0x10000, 4)
   \<and> fst ` set (writes_of (calls (state_of (mainThread 0 (blank_board True True) (initial ()))))) =
      {0x4000, 0x10000, 0x14000, 0x17000}"
proof -
  have run: "filter is_nvs_operation
       (calls (state_of (mainThread 0 (blank_board True True) (initial ())))) =
     [Call_NVS_open, Call_NVS_getAttrs,
        Call_NVS_read 0x10000 4, Call_NVS_read 0x4000 4,
        Call_NVS_read 0x14000 4, Call_NVS_read 0x17000 4,
        Call_NVS_write 0x10000 [240, 0xff, 0xff, 0xff] (write_flags (blank_board True True)),
        Call_NVS_write 0x4000 [191, 0xff, 0xff, 0xff] (write_flags (blank_board True True)),
        Call_NVS_write 0x14000 [0x14, 0xFC, 0xff, 0xff] (write_flags (blank_board True True)),
        Call_NVS_write 0x17000 [0xCB, 0xE6, 0xff, 0xff] (write_flags (blank_board True True))]"
    using mainThread_full_run [of "initial ()" "blank_board True True" 1 "()" "()" "()" 2 "()" 0]
    by (simp add: blank_board_def initial_def sizeof_buffer_def)
  have r: "reads_of (calls (state_of (mainThread 0 (blank_board True True) (initial ())))) =
      [(0x10000, 4), (0x4000, 4), (0x14000, 4), (0x17000, 4)]"
    by (subst reads_of_nvs) (simp add: run reads_of_def List.map_filter_simps)
  have w: "writes_of (calls (state_of (mainThread 0 (blank_board True True) (initial ())))) =
      [(0x10000, 4), (0x4000, 4), (0x14000, 4), (0x17000, 4)]"
    by (subst writes_of_nvs) (simp add: run writes_of_def List.map_filter_simps)
  show ?thesis
    using demo_accesses [of 0 "blank_board True True" "()"]
    by (simp add: r w sizeof_buffer_def)
qed

subsection \<open>The mode of the writes\<close>

text \<open>
  Claim C10. Every \<open>NVS_write\<close> that \<open>mainThread\<close> issues passes
  \<open>NVS_WRITE_ERASE | NVS_WRITE_POST_VERIFY\<close>: both flags are set in the mode of
  every write, whatever values the two macros have. Every write has a mode, and a run
  issues no write or four.
\<close>

theorem demo_write_mode:
  "(\<forall>m \<in> set (modes_of (calls (state_of (mainThread fuel P (initial w))))).
      m = NVS_WRITE_ERASE P OR NVS_WRITE_POST_VERIFY P \<and>
      m AND NVS_WRITE_ERASE P = NVS_WRITE_ERASE P \<and>
      m AND NVS_WRITE_POST_VERIFY P = NVS_WRITE_POST_VERIFY P) \<and>
   length (modes_of (calls (state_of (mainThread fuel P (initial w))))) =
     length (writes_of (calls (state_of (mainThread fuel P (initial w))))) \<and>
   length (writes_of (calls (state_of (mainThread fuel P (initial w))))) \<in> {0, 4}"
  using mainThread_modes [of fuel P w] mainThread_writes [of fuel P w]
  by (auto simp add: length_modes_writes write_flags_def or_and_left or_and_right)

theorem demo_write_mode_witness:
  "modes_of (calls (state_of (mainThread 0 (blank_board True True) (initial ())))) = [5, 5, 5, 5] \<and>
   (5 :: 16 word) = NVS_WRITE_ERASE (blank_board True True) OR
                    NVS_WRITE_POST_VERIFY (blank_board True True) \<and>
   (5 :: 16 word) AND NVS_WRITE_ERASE (blank_board True True) = 1 \<and>
   (5 :: 16 word) AND NVS_WRITE_POST_VERIFY (blank_board True True) = 4 \<and>
   length (writes_of (calls (state_of (mainThread 0 (blank_board True True) (initial ()))))) = 4"
proof -
  have run: "modes_of (calls (state_of (mainThread 0 (blank_board True True) (initial ())))) =
      [5, 5, 5, 5]"
    using mainThread_full_run [of "initial ()" "blank_board True True" 1 "()" "()" "()" 2 "()" 0]
    by (subst modes_of_nvs)
      (simp add: blank_board_def initial_def sizeof_buffer_def modes_of_def
        List.map_filter_simps write_flags_def)
  have flags: "NVS_WRITE_ERASE (blank_board True True) = 1"
    "NVS_WRITE_POST_VERIFY (blank_board True True) = 4"
    by (simp_all add: blank_board_def)
  show ?thesis
    using demo_write_mode [of 0 "blank_board True True" "()"]
    by (simp add: run flags)
qed

end
